theory Spec2Isabelle
  imports Main "HOL-Library.Sublist"
begin

section \<open>Values, events and completion signals\<close>

text \<open>
  The build and deploy tasks of sake are gulp tasks. Each task body is a JavaScript
  function that receives a completion callback; it reads and writes one options object
  and a config object, spawns shell commands and issues HTTP requests. The embedding
  makes every one of these effects explicit: a task is a function from the world to a
  completion signal, the new world and the list of events it produced.
\<close>

text \<open>
  The values kept in the options bag. A key that is absent from the bag reads as
  \<^verbatim>\<open>undefined\<close>.
\<close>

datatype jsval = VBool bool | VStr string

type_synonym bag = "string \<rightharpoonup> jsval"

text \<open>JavaScript truthiness of a property read, as used by \<^verbatim>\<open>if (options.deploy)\<close>.\<close>

fun truthy :: "jsval option \<Rightarrow> bool" where
  "truthy None = False"
| "truthy (Some (VBool b)) = b"
| "truthy (Some (VStr s)) = (s \<noteq> [])"

text \<open>Truthiness of an optional string (\<^verbatim>\<open>config.trelloBoard\<close>) and of an optional
  timestamp (\<^verbatim>\<open>gulp.lastRun(name)\<close>).\<close>

fun truthy_str :: "string option \<Rightarrow> bool" where
  "truthy_str None = False"
| "truthy_str (Some s) = (s \<noteq> [])"

fun truthy_num :: "nat option \<Rightarrow> bool" where
  "truthy_num None = False"
| "truthy_num (Some n) = (n \<noteq> 0)"

text \<open>
  What a run leaves behind. \<open>Step n evs\<close> records that a pipeline invoked its step
  \<open>n\<close>, with the events of that step nested inside; \<open>Callback t r\<close> records that
  the completion callback \<^verbatim>\<open>done\<close> of task \<open>t\<close> was called with error \<open>r\<close>
  (\<open>None\<close> for a call without an error).
\<close>

datatype event =
    Step string "event list"
  | Callback string "string option"
  | EnvCheck "string list"
  | Spawn string
  | LogInfo string
  | LogWarn string
  | LogError string

text \<open>
  How a step function ends, as seen by the runner that invoked it:
  \<^item> \<open>Completed r\<close>: it called its own callback \<^verbatim>\<open>cb(r)\<close>;
  \<^item> \<open>Pending\<close>: it never called a callback;
  \<^item> \<open>Bypass r\<close>: it called the enclosing task's \<^verbatim>\<open>done(r)\<close> directly and never its
    own \<^verbatim>\<open>cb\<close> (line 56 of the deploy task);
  \<^item> \<open>Threw e\<close>: it raised the exception \<open>e\<close>.
\<close>

datatype signal = Completed "string option" | Pending | Bypass "string option" | Threw string

type_synonym 'w run = "'w \<Rightarrow> signal \<times> 'w \<times> event list"

fun failure_of :: "signal \<Rightarrow> string option" where
  "failure_of (Completed r) = r"
| "failure_of (Threw e) = Some e"
| "failure_of Pending = None"
| "failure_of (Bypass r) = None"

text \<open>The names of the steps a pipeline invoked, and the errors its callback received,
  read off the top level of an event list.\<close>

fun invoked :: "event list \<Rightarrow> string list" where
  "invoked [] = []"
| "invoked (Step n evs # es) = n # invoked es"
| "invoked (e # es) = invoked es"

fun callbacks :: "string \<Rightarrow> event list \<Rightarrow> string option list" where
  "callbacks t [] = []"
| "callbacks t (Callback t' r # es) = (if t' = t then r # callbacks t es else callbacks t es)"
| "callbacks t (e # es) = callbacks t es"

section \<open>The pipeline runners\<close>

text \<open>
  Modelled from the spec: \<^verbatim>\<open>gulp.series\<close> is the third-party runner the tasks hand
  their step lists to; its code is not part of the repository. The spec's \<^verbatim>\<open>run\<close>:
  the steps are executed in order, each step must signal completion before the next
  begins, and on failure the remaining steps are skipped. A step that never signals
  completion leaves the pipeline waiting, and an exception raised by a step is a failure
  of that step.
\<close>

fun series :: "(string \<times> 'w run) list \<Rightarrow> 'w run" where
  "series [] w = (Completed None, w, [])"
| "series ((n, f) # ts) w =
     (case f w of (sg, w', ev) \<Rightarrow>
        if sg = Completed None
        then (case series ts w' of (r, w'', ev') \<Rightarrow> (r, w'', Step n ev # ev'))
        else (sg, w', [Step n ev]))"

text \<open>
  Modelled from the spec: the call \<^verbatim>\<open>gulp.series(tasks)(done)\<close> inside task \<open>t\<close>, again
  third-party code. The spec's \<^verbatim>\<open>run(list, onDone)\<close>: the pipeline is run and its
  outcome is delivered to \<^verbatim>\<open>done\<close>, the completion callback of \<open>t\<close>; on failure it
  is invoked with that error. When a step has called \<^verbatim>\<open>done\<close> itself, that call is the
  one recorded and the pipeline makes none.
\<close>

definition series_done :: "string \<Rightarrow> (string \<times> 'w run) list \<Rightarrow> 'w run" where
  "series_done t ts w =
     (case series ts w of (sg, w', ev) \<Rightarrow>
        (case sg of
           Completed r \<Rightarrow> (Completed r, w', ev @ [Callback t r])
         | Bypass r \<Rightarrow> (Completed r, w', ev @ [Callback t r])
         | Threw e \<Rightarrow> (Completed (Some e), w', ev @ [Callback t (Some e)])
         | Pending \<Rightarrow> (Pending, w', ev)))"

section \<open>Configuration, the object store and the environment\<close>

text \<open>The fields of the config object that the modelled tasks read.\<close>

record config =
  deploy_type :: "string option"
  deploy_dev :: "string \<times> string"
  deploy_production :: "(string \<times> string) option"
  trelloBoard :: "string option"
  platform :: "string option"
  isWatching :: bool

text \<open>
  The options object is shared by reference: every module receives the same object
  when it is loaded, and keeps it in a variable of its own named \<^verbatim>\<open>options\<close>. The
  store maps addresses to objects; \<open>shared_options\<close> is the address every other module
  holds, \<open>options_var\<close> is the content of the variable \<^verbatim>\<open>options\<close> of the deploy
  module, which one of its tasks assigns to (line 272). \<open>validatedEnvVariables\<close> is
  the module's flag of line 12.
\<close>

record world =
  heap :: "nat \<Rightarrow> bag"
  next_addr :: nat
  options_var :: nat
  validatedEnvVariables :: bool
  cfg :: config

definition shared_options :: nat where
  "shared_options = 0"

definition initial_world :: "config \<Rightarrow> bag \<Rightarrow> world" where
  "initial_world cf b =
     \<lparr>heap = (\<lambda>a. Map.empty)(shared_options := b), next_addr = Suc shared_options,
      options_var = shared_options, validatedEnvVariables = False, cfg = cf\<rparr>"

text \<open>\<^verbatim>\<open>options\<close> and \<^verbatim>\<open>options.k = v\<close> as the deploy module evaluates them.\<close>

definition options :: "world \<Rightarrow> bag" where
  "options w = heap w (options_var w)"

definition set_option :: "string \<Rightarrow> jsval \<Rightarrow> world \<Rightarrow> world" where
  "set_option k v w = w\<lparr>heap := (heap w)(options_var w := (options w)(k \<mapsto> v))\<rparr>"

text \<open>\<^verbatim>\<open>options = b\<close>: the variable is bound to a new object; the old object is untouched.\<close>

definition assign_options :: "bag \<Rightarrow> world \<Rightarrow> world" where
  "assign_options b w =
     w\<lparr>heap := (heap w)(next_addr w := b), options_var := next_addr w,
       next_addr := Suc (next_addr w)\<rparr>"

text \<open>\<^verbatim>\<open>_.merge(dst, src)\<close> on flat objects: the properties of \<open>src\<close> are written over
  those of \<open>dst\<close>.\<close>

definition merge :: "bag \<Rightarrow> bag \<Rightarrow> bag" where
  "merge dst src = dst ++ src"

text \<open>How a task of another module ends, and what an HTTP request comes back with:
  a request error, no body, a body from which the version is read, or a body on which
  \<^verbatim>\<open>JSON.parse\<close> or the property access raises.\<close>

datatype outcome = Ok | Failed string | Hang

datatype response = RequestError string | EmptyBody | Version string | Malformed string

text \<open>
  What the tasks take from outside: the process environment, the results of the helpers
  of \<^verbatim>\<open>lib/utilities\<close>, the tasks registered by other modules (each acts on the
  shared options object), the answers to the two HTTP requests and which of them arrives
  first, and gulp's record of the last run of each task.
\<close>

record ctx =
  env :: "string \<rightharpoonup> string"
  isDeployable :: bool
  getChangelogErrors :: "string list"
  buildPluginConfig :: "config \<Rightarrow> config"
  external :: "string \<Rightarrow> bag \<Rightarrow> outcome \<times> bag"
  wp_response :: response
  wc_response :: response
  wc_first :: bool
  lastRun :: "string \<Rightarrow> nat option"

fun join_js :: "string \<Rightarrow> string list \<Rightarrow> string" where
  "join_js sep [] = []"
| "join_js sep [x] = x"
| "join_js sep (x # y # ys) = x @ sep @ join_js sep (y # ys)"

definition external_task :: "ctx \<Rightarrow> string \<Rightarrow> world run" where
  "external_task c n w =
     (case external c n (heap w shared_options) of (out, b) \<Rightarrow>
        ((case out of Ok \<Rightarrow> Completed None | Failed e \<Rightarrow> Completed (Some e) | Hang \<Rightarrow> Pending),
         w\<lparr>heap := (heap w)(shared_options := b)\<rparr>, []))"

section \<open>Validation of the environment variables\<close>

text \<open>
  Modelled from the spec: \<^verbatim>\<open>util.validateEnvironmentVariables\<close> of
  \<^verbatim>\<open>lib/utilities\<close>, which is not among the sources. The spec: a declared set of
  required variable names; missing ones abort with a descriptive error.
\<close>

definition validateEnvironmentVariables :: "string list \<Rightarrow> (string \<rightharpoonup> string) \<Rightarrow> string option" where
  "validateEnvironmentVariables variables e =
     (case filter (\<lambda>v. e v = None) variables of
        [] \<Rightarrow> None
      | m # ms \<Rightarrow> Some (''Missing environment variables: '' @ join_js '', '' (m # ms)))"

text \<open>
  Lines 19 to 23. \<^verbatim>\<open>Array.prototype.concat\<close> returns a new array and leaves its
  receiver as it was; line 22 drops the array it returns.
\<close>

definition validateEnvVariables_variables :: "config \<Rightarrow> string list" where
  "validateEnvVariables_variables cf =
     (let variables = [''GITHUB_API_KEY'', ''GITHUB_USERNAME''];
          dropped = (if deploy_type cf = Some ''wc''
                     then variables @ [''TRELLO_API_KEY'', ''TRELLO_API_TOKEN'']
                     else [])
      in variables)"

text \<open>Lines 16 to 26. The first component is the exception raised, if any. No line of
  the module assigns to \<^verbatim>\<open>validatedEnvVariables\<close>, so the world is returned as it
  was.\<close>

definition validateEnvVariables :: "ctx \<Rightarrow> world \<Rightarrow> string option \<times> world \<times> event list" where
  "validateEnvVariables c w =
     (if validatedEnvVariables w then (None, w, [])
      else let variables = validateEnvVariables_variables (cfg w)
           in (validateEnvironmentVariables variables (env c), w, [EnvCheck variables]))"

text \<open>A task body that starts with \<^verbatim>\<open>validateEnvVariables()\<close>.\<close>

definition after_validation :: "ctx \<Rightarrow> world run \<Rightarrow> world run" where
  "after_validation c body w =
     (case validateEnvVariables c w of
        (Some e, w1, ev1) \<Rightarrow> (Threw e, w1, ev1)
      | (None, w1, ev1) \<Rightarrow> (case body w1 of (sg, w2, ev2) \<Rightarrow> (sg, w2, ev1 @ ev2)))"

section \<open>Fetching the latest versions\<close>

text \<open>
  Modelled from the spec: \<^verbatim>\<open>async.parallel\<close> is third-party code. The spec's
  \<^verbatim>\<open>runParallel\<close>: the callback fires once all entries have completed, and receives
  the first error by completion order. The members are given in the order in which they
  complete. A member that raises or never completes ends the join without a callback.
\<close>

fun runParallel :: "'w run list \<Rightarrow> 'w run" where
  "runParallel [] w = (Completed None, w, [])"
| "runParallel (m # ms) w =
     (case m w of (sg, w', ev) \<Rightarrow>
        (case sg of
           Completed r \<Rightarrow>
             (case runParallel ms w' of (sg', w'', ev') \<Rightarrow>
                ((case sg' of Completed r' \<Rightarrow> Completed (if r = None then r' else r) | _ \<Rightarrow> sg'),
                 w'', ev @ ev'))
         | _ \<Rightarrow> (sg, w', ev)))"

text \<open>The two request callbacks, lines 317 to 325 and 330 to 338.\<close>

definition request_wp :: "response \<Rightarrow> world run" where
  "request_wp r w =
     (case r of
        RequestError e \<Rightarrow> (Completed (Some e), w, [])
      | EmptyBody \<Rightarrow> (Completed None, w, [])
      | Version v \<Rightarrow> (Completed None, set_option ''tested_up_to_wp_version'' (VStr v) w, [])
      | Malformed e \<Rightarrow> (Threw e, w, []))"

definition request_wc :: "response \<Rightarrow> world run" where
  "request_wc r w =
     (case r of
        RequestError e \<Rightarrow> (Completed (Some e), w, [])
      | EmptyBody \<Rightarrow> (Completed None, w, [])
      | Version v \<Rightarrow> (Completed None, set_option ''tested_up_to_wc_version'' (VStr v) w, [])
      | Malformed e \<Rightarrow> (Threw e, w, []))"

text \<open>Lines 311 to 348.\<close>

definition fetch_latest_wp_wc_versions :: "ctx \<Rightarrow> world run" where
  "fetch_latest_wp_wc_versions c w =
     (let requests = [request_wp (wp_response c)];
          requests = (if platform (cfg w) = Some ''wc''
                      then requests @ [request_wc (wc_response c)] else requests);
          completion = (if wc_first c then rev requests else requests)
      in case runParallel completion w of (sg, w', ev) \<Rightarrow>
           (case sg of
              Completed r \<Rightarrow>
                (Completed None, w',
                 LogInfo ''Fetching latest WP and WC versions'' # ev @
                 (case r of
                    None \<Rightarrow> []
                  | Some e \<Rightarrow>
                      [LogError (''An error occurred when fetching latest WP / WC versions: '' @ e)]))
            | _ \<Rightarrow> (sg, w', LogInfo ''Fetching latest WP and WC versions'' # ev)))"

section \<open>The step lists and the tasks of the deploy module\<close>

text \<open>An entry of a task list: the name of a registered task, or one of the inline
  functions of lines 53, 74, 176 and 186.\<close>

datatype step = Task string | SkipCheck | RebuildPluginConfig | SetDevRepo | SetProductionRepo

text \<open>Lines 53 to 59.\<close>

definition skip_check :: "world run" where
  "skip_check w =
     (if options w ''version'' = Some (VStr ''skip'')
      then (Bypass None, w, [LogError ''Deploy skipped!''])
      else (Completed None, w, []))"

text \<open>Lines 74 to 77.\<close>

definition rebuildPluginConfig :: "ctx \<Rightarrow> world run" where
  "rebuildPluginConfig c w = (Completed None, w\<lparr>cfg := buildPluginConfig c (cfg w)\<rparr>, [])"

text \<open>Lines 176 to 180 and 186 to 190. The second is only listed when
  \<^verbatim>\<open>config.deploy.production\<close> is set; reading a property of \<^verbatim>\<open>undefined\<close> raises.\<close>

definition set_dev_repo :: "world run" where
  "set_dev_repo w =
     (Completed None,
      set_option ''repo'' (VStr (snd (deploy_dev (cfg w))))
        (set_option ''owner'' (VStr (fst (deploy_dev (cfg w)))) w), [])"

definition set_production_repo :: "world run" where
  "set_production_repo w =
     (case deploy_production (cfg w) of
        None \<Rightarrow> (Threw ''TypeError'', w, [])
      | Some p \<Rightarrow>
          (Completed None,
           set_option ''repo'' (VStr (snd p)) (set_option ''owner'' (VStr (fst p)) w), []))"

fun step_name :: "step \<Rightarrow> string" where
  "step_name (Task n) = n"
| "step_name SkipCheck = ''<anonymous>''"
| "step_name RebuildPluginConfig = ''rebuildPluginConfig''"
| "step_name SetDevRepo = ''<anonymous>''"
| "step_name SetProductionRepo = ''<anonymous>''"

text \<open>\<^verbatim>\<open>gulp.series(tasks)\<close> looks every name up when the pipeline is built; \<open>res\<close>
  is the lookup.\<close>

definition steps :: "(string \<Rightarrow> world run) \<Rightarrow> ctx \<Rightarrow> step list \<Rightarrow> (string \<times> world run) list" where
  "steps res c ss =
     map (\<lambda>s. (step_name s,
                (case s of
                   Task n \<Rightarrow> res n
                 | SkipCheck \<Rightarrow> skip_check
                 | RebuildPluginConfig \<Rightarrow> rebuildPluginConfig c
                 | SetDevRepo \<Rightarrow> set_dev_repo
                 | SetProductionRepo \<Rightarrow> set_production_repo))) ss"

text \<open>
  The tasks that the modelled ones call by name and that are not modelled themselves are
  those of \<open>external\<close>: the tasks of the other modules, and of the deploy module
  \<^verbatim>\<open>deploy:preflight\<close> (a parallel group), \<^verbatim>\<open>search:wt_update_key\<close> (a file read)
  and \<^verbatim>\<open>replace:version\<close> (a stream of file rewrites), none of which reads or assigns
  the variable \<^verbatim>\<open>options\<close>.
\<close>

definition task0 :: "ctx \<Rightarrow> string \<Rightarrow> world run" where
  "task0 c n =
     (if n = ''fetch_latest_wp_wc_versions'' then fetch_latest_wp_wc_versions c
      else external_task c n)"

text \<open>Lines 230 to 250.\<close>

definition copy_to_wc_repo_tasks :: "bag \<Rightarrow> step list" where
  "copy_to_wc_repo_tasks opts =
     (let tasks = [Task ''build'', Task ''shell:git_pull_wc_repo'', Task ''clean:wc_repo'',
                   Task ''copy:wc_repo'']
      in if truthy (opts ''deploy'') then tl tasks else tasks)"

definition copy_to_wc_repo :: "ctx \<Rightarrow> world run" where
  "copy_to_wc_repo c =
     after_validation c
       (\<lambda>w. series_done ''copy_to_wc_repo'' (steps (task0 c) c (copy_to_wc_repo_tasks (options w))) w)"

text \<open>Lines 291 to 309.\<close>

definition copy_to_wp_repo_tasks :: "bag \<Rightarrow> step list" where
  "copy_to_wp_repo_tasks opts =
     (let tasks = [Task ''build'', Task ''shell:svn_checkout'', Task ''clean:wp_trunk'',
                   Task ''copy:wp_trunk'']
      in if truthy (opts ''deploy'') then tl tasks else tasks)"

definition copy_to_wp_repo :: "ctx \<Rightarrow> world run" where
  "copy_to_wp_repo c w =
     series_done ''copy_to_wp_repo'' (steps (task0 c) c (copy_to_wp_repo_tasks (options w))) w"

text \<open>Lines 172 to 196.\<close>

definition deploy_create_releases_tasks :: "config \<Rightarrow> step list" where
  "deploy_create_releases_tasks cf =
     (let tasks = [SetDevRepo, Task ''github:create_release'']
      in if deploy_type cf = Some ''wc'' \<and> deploy_production cf \<noteq> None
         then tasks @ [SetProductionRepo, Task ''github:create_release'']
         else tasks)"

definition deploy_create_releases :: "ctx \<Rightarrow> world run" where
  "deploy_create_releases c w =
     series_done ''deploy_create_releases''
       (steps (task0 c) c (deploy_create_releases_tasks (cfg w))) w"

definition task1 :: "ctx \<Rightarrow> string \<Rightarrow> world run" where
  "task1 c n =
     (if n = ''copy_to_wc_repo'' then copy_to_wc_repo c
      else if n = ''copy_to_wp_repo'' then copy_to_wp_repo c
      else if n = ''deploy_create_releases'' then deploy_create_releases c
      else task0 c n)"

text \<open>Lines 216 to 220 and 261 to 265.\<close>

definition deploy_to_wc_repo :: "ctx \<Rightarrow> world run" where
  "deploy_to_wc_repo c =
     after_validation c
       (series_done ''deploy_to_wc_repo''
          (steps (task1 c) c [Task ''copy_to_wc_repo'', Task ''shell:git_push_wc_repo'']))"

definition update_wc_repo :: "ctx \<Rightarrow> world run" where
  "update_wc_repo c =
     after_validation c
       (series_done ''update_wc_repo''
          (steps (task1 c) c [Task ''copy_to_wc_repo'', Task ''shell:git_update_wc_repo'']))"

text \<open>Lines 269 to 289. Line 272 assigns the merged object to the variable
  \<^verbatim>\<open>options\<close>; the list is then built from the merged object.\<close>

definition deploy_to_wp_repo_tasks :: "bag \<Rightarrow> step list" where
  "deploy_to_wp_repo_tasks opts =
     (let tasks = [Task ''copy_to_wp_repo'', Task ''shell:svn_commit_trunk''];
          tasks = (if truthy (opts ''deployTag'')
                   then tasks @ [Task ''copy:wp_tag'', Task ''shell:svn_commit_tag'']
                   else tasks);
          tasks = (if truthy (opts ''deployAssets'')
                   then tasks @ [Task ''clean:wp_assets'', Task ''copy:wp_assets'',
                                 Task ''shell:svn_commit_assets'']
                   else tasks)
      in tasks)"

definition deploy_to_wp_repo :: "ctx \<Rightarrow> world run" where
  "deploy_to_wp_repo c w =
     (let w1 = assign_options
                 (merge [''deployTag'' \<mapsto> VBool True, ''deployAssets'' \<mapsto> VBool True] (options w)) w
      in series_done ''deploy_to_wp_repo''
           (steps (task1 c) c (deploy_to_wp_repo_tasks (options w1))) w1)"

definition task2 :: "ctx \<Rightarrow> string \<Rightarrow> world run" where
  "task2 c n =
     (if n = ''deploy_to_wc_repo'' then deploy_to_wc_repo c
      else if n = ''update_wc_repo'' then update_wc_repo c
      else if n = ''deploy_to_wp_repo'' then deploy_to_wp_repo c
      else task1 c n)"

text \<open>Lines 199 to 211.\<close>

definition deploy_to_production_repo :: "ctx \<Rightarrow> world run" where
  "deploy_to_production_repo c w =
     (if deploy_type (cfg w) = Some ''wc''
      then series_done ''deploy_to_production_repo'' (steps (task2 c) c [Task ''deploy_to_wc_repo'']) w
      else if deploy_type (cfg w) = Some ''wp''
      then series_done ''deploy_to_production_repo'' (steps (task2 c) c [Task ''deploy_to_wp_repo'']) w
      else (case series_done ''deploy_to_production_repo'' (steps (task2 c) c []) w of
              (sg, w', ev) \<Rightarrow>
                (sg, w', LogWarn ''No deploy type set, skipping deploy to remote repo'' # ev)))"

definition task3 :: "ctx \<Rightarrow> string \<Rightarrow> world run" where
  "task3 c n =
     (if n = ''deploy_to_production_repo'' then deploy_to_production_repo c
      else task2 c n)"

text \<open>Lines 29 to 92.\<close>

definition deploy_tasks :: "config \<Rightarrow> step list" where
  "deploy_tasks cf =
     (let tasks = [Task ''deploy:preflight'', Task ''bump'', Task ''fetch_latest_wp_wc_versions'',
                   Task ''bump:minreqs'', Task ''prompt:deploy'', SkipCheck,
                   Task ''replace:version'', Task ''clean:prerelease'', Task ''build'',
                   Task ''github:get_rissue'', Task ''github:get_wc_issues'',
                   Task ''shell:git_push_update'', Task ''deploy_to_production_repo'',
                   RebuildPluginConfig, Task ''compress'', Task ''deploy_create_releases''];
          tasks = (if truthy_str (trelloBoard cf) \<and> deploy_type cf = Some ''wc''
                   then tasks @ [Task ''trello:update_wc_card''] else tasks)
      in tasks @ [Task ''github:docs_issue''])"

definition deploy :: "ctx \<Rightarrow> world run" where
  "deploy c =
     after_validation c
       (\<lambda>w. if \<not> isDeployable c
            then (Threw (''Plugin is not deployable: '' @ [CHR 0x0A] @ '' * '' @
                         join_js (CHR 0x0A # '' * '') (getChangelogErrors c)), w, [])
            else let w1 = set_option ''minify'' (VBool True) (set_option ''deploy'' (VBool True) w)
                 in series_done ''deploy'' (steps (task3 c) c (deploy_tasks (cfg w1))) w1)"

text \<open>The \<^verbatim>\<open>scripts\<close> task of the scripts module.\<close>

definition scripts_tasks :: "config \<Rightarrow> nat option \<Rightarrow> step list" where
  "scripts_tasks cf lint_ran =
     (let tasks = [Task ''lint:scripts'', Task ''compile:scripts'']
      in if \<not> isWatching cf \<and> truthy_num lint_ran then tl tasks else tasks)"

definition scripts :: "ctx \<Rightarrow> world run" where
  "scripts c w =
     series_done ''scripts''
       (steps (external_task c) c (scripts_tasks (cfg w) (lastRun c ''lint:scripts''))) w"

section \<open>Shell commands\<close>

text \<open>The decimal digits that \<^verbatim>\<open>'' + code\<close> produces for a natural number.\<close>

definition digit :: "nat \<Rightarrow> char" where
  "digit d = ''0123456789'' ! d"

function show_nat :: "nat \<Rightarrow> string" where
  "show_nat n =
     (if n < 10 then [digit n]
      else show_nat (n div 10) @ [digit (n mod 10)])"
  by pat_completeness auto
termination
  by (relation "measure id") auto

declare show_nat.simps [simp del]

text \<open>\<^verbatim>\<open>code > 0\<close>, where \<open>code\<close> is the exit code the \<^verbatim>\<open>exit\<close> event delivers:
  a number that is not negative, or \<^verbatim>\<open>null\<close> when the process was ended by a signal.\<close>

fun positive :: "nat option \<Rightarrow> bool" where
  "positive None = False"
| "positive (Some n) = (0 < n)"

fun show_code :: "nat option \<Rightarrow> string" where
  "show_code None = ''null''"
| "show_code (Some n) = show_nat n"

text \<open>Lines 12 to 15 of the shell module; \<open>code\<close> is what the spawned command exits
  with.\<close>

definition exec :: "nat option \<Rightarrow> string \<Rightarrow> 'w run" where
  "exec code command w =
     (Completed (if positive code
                 then Some (''Command failed [exit code '' @ show_code code @ '']: '' @ command)
                 else None),
      w, [LogInfo (''$ '' @ command), Spawn command])"

section \<open>Registration of tasks\<close>

text \<open>
  Modelled from the spec: \<^verbatim>\<open>gulp.task(name, body)\<close> stores into gulp's registry,
  which is third-party code. The spec's \<^verbatim>\<open>register\<close>: the source allows
  re-registration, overwriting the previous definition silently.
\<close>

definition register :: "string \<Rightarrow> 'b \<Rightarrow> (string \<rightharpoonup> 'b) \<Rightarrow> (string \<rightharpoonup> 'b)" where
  "register n b reg = reg(n \<mapsto> b)"

text \<open>Loading a module performs its \<^verbatim>\<open>gulp.task\<close> calls from top to bottom.\<close>

definition load :: "(string \<times> 'b) list \<Rightarrow> (string \<rightharpoonup> 'b) \<Rightarrow> (string \<rightharpoonup> 'b)" where
  "load regs reg = foldl (\<lambda>r (n, b). register n b r) reg regs"

text \<open>The \<^verbatim>\<open>gulp.task\<close> calls of the shell module, each body named by the line of
  its call.\<close>

definition shell_registrations :: "(string \<times> nat) list" where
  "shell_registrations =
     [(''shell:update_framework'', 18),
      (''shell:update_framework_commit'', 39),
      (''shell:update_framework_commit'', 59),
      (''shell:git_ensure_clean_working_copy'', 79),
      (''shell:git_push_update'', 96),
      (''shell:git_pull_wc_repo'', 108),
      (''shell:git_push_wc_repo'', 118),
      (''shell:git_update_wc_repo'', 132),
      (''shell:git_stash'', 146),
      (''shell:git_stash_apply'', 151),
      (''shell:composer_install'', 155)]"

section \<open>Two configurations and an environment\<close>

text \<open>
  A WooCommerce plugin and a WordPress.org plugin, and an environment in which the two
  GitHub variables are set and the two Trello variables are not, every task of another
  module succeeds, the version prompt answers \<^verbatim>\<open>skip\<close>, the build sets
  \<^verbatim>\<open>options.deploy\<close>, the WordPress lookup succeeds and the WooCommerce lookup fails.
\<close>

definition wc_config :: config where
  "wc_config =
     \<lparr>deploy_type = Some ''wc'', deploy_dev = (''skyverge'', ''plugin''),
      deploy_production = Some (''woocommerce'', ''plugin''), trelloBoard = Some ''board'',
      platform = Some ''wc'', isWatching = False\<rparr>"

definition wp_config :: config where
  "wp_config =
     \<lparr>deploy_type = Some ''wp'', deploy_dev = (''skyverge'', ''plugin''),
      deploy_production = None, trelloBoard = None,
      platform = Some ''wp'', isWatching = False\<rparr>"

definition scenario :: ctx where
  "scenario =
     \<lparr>env = [''GITHUB_API_KEY'' \<mapsto> ''key'', ''GITHUB_USERNAME'' \<mapsto> ''user''],
      isDeployable = True, getChangelogErrors = [], buildPluginConfig = (\<lambda>cf. cf),
      external = (\<lambda>n b. if n = ''prompt:deploy'' then (Ok, b(''version'' \<mapsto> VStr ''skip''))
                           else if n = ''build'' then (Ok, b(''deploy'' \<mapsto> VBool True))
                           else (Ok, b)),
      wp_response = Version ''6.4'', wc_response = RequestError ''ETIMEDOUT'',
      wc_first = False, lastRun = (\<lambda>n. None)\<rparr>"

section \<open>Facts about the runners and the store\<close>

lemma series_append:
  "series (xs @ ys) w =
     (case series xs w of (sg, w', ev) \<Rightarrow>
        if sg = Completed None
        then (case series ys w' of (r, w'', ev') \<Rightarrow> (r, w'', ev @ ev'))
        else (sg, w', ev))"
  by (induction xs arbitrary: w) (auto split: prod.splits)

lemma invoked_append: "invoked (xs @ ys) = invoked xs @ invoked ys"
  by (induction xs rule: invoked.induct) auto

lemma callbacks_append: "callbacks t (xs @ ys) = callbacks t xs @ callbacks t ys"
  by (induction t xs rule: callbacks.induct) auto

lemma series_invoked_all:
  "series ts w = (Completed None, w', ev) \<Longrightarrow> invoked ev = map fst ts"
  by (induction ts arbitrary: w ev) (auto split: prod.splits if_splits)

lemma series_invoked_prefix:
  "series ts w = (sg, w', ev) \<Longrightarrow> prefix (invoked ev) (map fst ts)"
  by (induction ts arbitrary: w ev sg) (auto split: prod.splits if_splits)

lemma series_no_callbacks: "series ts w = (sg, w', ev) \<Longrightarrow> callbacks t ev = []"
  by (induction ts arbitrary: w ev) (auto split: prod.splits if_splits)

lemma series_done_invoked_prefix:
  "prefix (invoked (snd (snd (series_done t ts w)))) (map fst ts)"
  using series_invoked_prefix [of ts w]
  by (cases "series ts w") (auto simp add: series_done_def invoked_append split: signal.splits)

lemma cfg_set_option [simp]: "cfg (set_option k v w) = cfg w"
  by (simp add: set_option_def)

lemma options_var_set_option [simp]: "options_var (set_option k v w) = options_var w"
  by (simp add: set_option_def)

lemma options_set_option_same [simp]: "options (set_option k v w) k = Some v"
  by (simp add: options_def set_option_def)

lemma options_set_option_other [simp]:
  "k' \<noteq> k \<Longrightarrow> options (set_option k v w) k' = options w k'"
  by (simp add: options_def set_option_def)

lemma map_fst_steps [simp]: "map fst (steps res c ss) = map step_name ss"
  by (simp add: steps_def)

lemma steps_append: "steps res c (xs @ ys) = steps res c xs @ steps res c ys"
  by (simp add: steps_def)

lemma steps_SkipCheck:
  "steps res c (SkipCheck # ss) = (''<anonymous>'', skip_check) # steps res c ss"
  by (simp add: steps_def)

lemma validateEnvVariables_world: "fst (snd (validateEnvVariables c w)) = w"
  by (simp add: validateEnvVariables_def Let_def)

lemma validateEnvVariables_invoked: "invoked (snd (snd (validateEnvVariables c w))) = []"
  by (simp add: validateEnvVariables_def Let_def)

lemma validateEnvVariables_callbacks: "callbacks t (snd (snd (validateEnvVariables c w))) = []"
  by (simp add: validateEnvVariables_def Let_def)

lemma after_validation_invoked:
  "invoked (snd (snd (after_validation c body w))) = [] \<or>
   invoked (snd (snd (after_validation c body w))) = invoked (snd (snd (body w)))"
  using validateEnvVariables_invoked [of c w] validateEnvVariables_world [of c w]
  by (cases "validateEnvVariables c w")
     (auto simp add: after_validation_def invoked_append split: option.splits prod.splits)

text \<open>Unfolding the tasks on the two configurations and the environment above.\<close>

lemmas scenario_defs = scenario_def wc_config_def wp_config_def initial_world_def
  shared_options_def validateEnvVariables_def validateEnvVariables_variables_def
  validateEnvironmentVariables_def steps_def task3_def task2_def task1_def task0_def
  external_task_def fetch_latest_wp_wc_versions_def request_wp_def request_wc_def
  set_option_def options_def deploy_tasks_def Let_def after_validation_def series_done_def
  copy_to_wc_repo_def copy_to_wc_repo_tasks_def copy_to_wp_repo_def copy_to_wp_repo_tasks_def
  deploy_to_wc_repo_def deploy_to_wp_repo_def deploy_to_wp_repo_tasks_def assign_options_def
  merge_def deploy_def skip_check_def set_dev_repo_def

section \<open>Sequential pipelines stop at the first failure\<close>

text \<open>
  C1. In a sequential pipeline \<open>pre @ (n, f) # post\<close> whose steps \<open>pre\<close> all
  complete and whose step \<open>n\<close> signals the failure \<open>e\<close>, the steps invoked are
  exactly those of \<open>pre\<close> followed by \<open>n\<close>, so none of \<open>post\<close> is invoked, and the
  completion callback of the pipeline is called exactly once, with \<open>e\<close>.
\<close>

theorem series_aborts_on_first_failure:
  assumes "series pre w = (Completed None, w1, ev1)"
    and "f w1 = (sg, w2, ev2)"
    and "failure_of sg = Some e"
  shows "\<exists>ev. series_done t (pre @ (n, f) # post) w = (Completed (Some e), w2, ev)
           \<and> invoked ev = map fst pre @ [n]
           \<and> callbacks t ev = [Some e]"
proof -
  from assms(3) have ne: "sg \<noteq> Completed None" by auto
  have run: "series (pre @ (n, f) # post) w = (sg, w2, ev1 @ [Step n ev2])"
    using assms(1,2) ne by (simp add: series_append)
  have inv: "invoked (ev1 @ [Step n ev2]) = map fst pre @ [n]"
    using series_invoked_all [OF assms(1)] by (simp add: invoked_append)
  have cb: "callbacks t ev1 = []"
    using series_no_callbacks [OF assms(1)] .
  from assms(3) consider "sg = Completed (Some e)" | "sg = Threw e"
    by (cases sg) auto
  then show ?thesis
  proof cases
    case 1
    then show ?thesis
      using run inv cb by (simp add: series_done_def invoked_append callbacks_append)
  next
    case 2
    then show ?thesis
      using run inv cb by (simp add: series_done_def invoked_append callbacks_append)
  qed
qed

text \<open>Two pipelines: three shell commands whose second command exits with code 1, so
  that the third is not run; and the deploy in which \<^verbatim>\<open>bump\<close> fails, so that no step
  after it is invoked and \<^verbatim>\<open>done\<close> receives the error of \<^verbatim>\<open>bump\<close> once.\<close>

theorem series_aborts_on_first_failure_witness:
  "series [(''stepA'', exec (Some 0) ''a'')] () =
     (Completed None, (), [Step ''stepA'' [LogInfo ''$ a'', Spawn ''a'']])
   \<and> exec (Some 1) ''b'' () =
     (Completed (Some ''Command failed [exit code 1]: b''), (), [LogInfo ''$ b'', Spawn ''b''])
   \<and> failure_of (Completed (Some ''Command failed [exit code 1]: b'')) =
     Some ''Command failed [exit code 1]: b''
   \<and> (\<exists>ev. series_done ''pipeline''
          ([(''stepA'', exec (Some 0) ''a'')] @ (''stepB'', exec (Some 1) ''b'') #
           [(''stepC'', exec (Some 0) ''c'')]) () =
          (Completed (Some ''Command failed [exit code 1]: b''), (), ev)
        \<and> invoked ev = map fst [(''stepA'', exec (Some 0) ''a'' :: unit run)] @ [''stepB'']
        \<and> callbacks ''pipeline'' ev = [Some ''Command failed [exit code 1]: b''])
   \<and> (\<exists>ev w2.
         deploy (scenario\<lparr>external := (\<lambda>n b. if n = ''bump'' then (Failed ''no version bump'', b)
                                               else (Ok, b))\<rparr>)
           (initial_world wc_config Map.empty) = (Completed (Some ''no version bump''), w2, ev)
         \<and> invoked ev = [''deploy:preflight'', ''bump'']
         \<and> callbacks ''deploy'' ev = [Some ''no version bump''])"
proof -
  have a: "series [(''stepA'', exec (Some 0) ''a'')] () =
     (Completed None, (), [Step ''stepA'' [LogInfo ''$ a'', Spawn ''a'']])"
    by (simp add: exec_def)
  have b: "exec (Some 1) ''b'' () =
     (Completed (Some ''Command failed [exit code 1]: b''), (), [LogInfo ''$ b'', Spawn ''b''])"
    by (simp add: exec_def digit_def show_nat.simps)
  have c: "failure_of (Completed (Some ''Command failed [exit code 1]: b'')) =
     Some ''Command failed [exit code 1]: b''"
    by simp
  have shell: "\<exists>ev. series_done ''pipeline''
          ([(''stepA'', exec (Some 0) ''a'')] @ (''stepB'', exec (Some 1) ''b'') #
           [(''stepC'', exec (Some 0) ''c'')]) () =
          (Completed (Some ''Command failed [exit code 1]: b''), (), ev)
        \<and> invoked ev = map fst [(''stepA'', exec (Some 0) ''a'' :: unit run)] @ [''stepB'']
        \<and> callbacks ''pipeline'' ev = [Some ''Command failed [exit code 1]: b'']"
    using series_aborts_on_first_failure
      [where f = "exec (Some 1) ''b''" and t = "''pipeline''" and n = "''stepB''"
         and post = "[(''stepC'', exec (Some 0) ''c'')]", OF a b c] .
  let ?c = "scenario\<lparr>external := (\<lambda>n b. if n = ''bump'' then (Failed ''no version bump'', b)
                                               else (Ok, b))\<rparr>"
  let ?w = "initial_world wc_config Map.empty"
  let ?w1 = "set_option ''minify'' (VBool True) (set_option ''deploy'' (VBool True) ?w)"
  let ?pre = "steps (task3 ?c) ?c [Task ''deploy:preflight'']"
  let ?post = "steps (task3 ?c) ?c (drop 2 (deploy_tasks (cfg ?w1)))"
  have split: "steps (task3 ?c) ?c (deploy_tasks (cfg ?w1)) =
      ?pre @ (''bump'', task3 ?c ''bump'') # ?post"
    by (simp add: steps_def deploy_tasks_def Let_def)
  obtain w1 ev1 where a': "series ?pre ?w1 = (Completed None, w1, ev1)"
    by (simp add: scenario_defs)
  obtain sg w2 ev2 where b': "task3 ?c ''bump'' w1 = (sg, w2, ev2)"
    using prod_cases3 by blast
  have c': "failure_of sg = Some ''no version bump''"
    using a' b' by (auto simp add: scenario_defs)
  have v: "validateEnvVariables ?c ?w =
      (None, ?w, [EnvCheck [''GITHUB_API_KEY'', ''GITHUB_USERNAME'']])"
    by (simp add: scenario_defs)
  have d: "deploy ?c ?w =
      (case series_done ''deploy'' (steps (task3 ?c) ?c (deploy_tasks (cfg ?w1))) ?w1 of
         (sg, w', ev) \<Rightarrow> (sg, w', [EnvCheck [''GITHUB_API_KEY'', ''GITHUB_USERNAME'']] @ ev))"
    using v by (simp add: deploy_def after_validation_def scenario_def Let_def)
  have dep: "\<exists>ev w2. deploy ?c ?w = (Completed (Some ''no version bump''), w2, ev)
         \<and> invoked ev = [''deploy:preflight'', ''bump'']
         \<and> callbacks ''deploy'' ev = [Some ''no version bump'']"
    using series_aborts_on_first_failure
      [where f = "task3 ?c ''bump''" and t = "''deploy''" and n = "''bump''" and post = ?post,
        OF a' b' c']
    unfolding d split by auto
  show ?thesis
    using a b c shell dep by blast
qed

section \<open>The environment variables that are checked\<close>

text \<open>
  C3. For deploy type \<^verbatim>\<open>wc\<close> the list handed to the check holds the two GitHub
  variables only: with both Trello variables unset the validation returns without an
  error and the deploy goes on to invoke its steps, \<^verbatim>\<open>deploy:preflight\<close> first.
\<close>

theorem trello_variables_never_checked:
  "validateEnvVariables_variables wc_config = [''GITHUB_API_KEY'', ''GITHUB_USERNAME'']
   \<and> deploy_type wc_config = Some ''wc''
   \<and> env scenario ''TRELLO_API_KEY'' = None
   \<and> env scenario ''TRELLO_API_TOKEN'' = None
   \<and> validateEnvVariables scenario (initial_world wc_config Map.empty) =
       (None, initial_world wc_config Map.empty,
        [EnvCheck [''GITHUB_API_KEY'', ''GITHUB_USERNAME'']])
   \<and> invoked (snd (snd (deploy scenario (initial_world wc_config Map.empty)))) =
       [''deploy:preflight'', ''bump'', ''fetch_latest_wp_wc_versions'', ''bump:minreqs'',
        ''prompt:deploy'', ''<anonymous>'']"
  by (simp add: scenario_defs)

section \<open>The skipped deploy\<close>

lemma deploy_tasks_split:
  "deploy_tasks cf = take 5 (deploy_tasks cf) @ SkipCheck # drop 6 (deploy_tasks cf)"
  by (simp add: deploy_tasks_def Let_def)

text \<open>
  C4. When the deploy passes its two checks, the five steps before the sentinel check
  complete and \<^verbatim>\<open>options.version\<close> then is \<^verbatim>\<open>'skip'\<close>, the deploy task completes
  without an error: its callback is called exactly once, with no error, the steps invoked
  are the first six of the list, and no step listed after the sentinel check
  (\<^verbatim>\<open>replace:version\<close>, \<^verbatim>\<open>clean:prerelease\<close>, \<^verbatim>\<open>build\<close>, the git push, the
  releases and the rest) is among them.
\<close>

theorem deploy_skip_completes_without_error:
  assumes ok: "fst (validateEnvVariables c w) = None"
    and dep: "isDeployable c"
    and pre: "series (steps (task3 c) c (take 5 (deploy_tasks (cfg w))))
                (set_option ''minify'' (VBool True) (set_option ''deploy'' (VBool True) w)) =
              (Completed None, w1, ev1)"
    and skip: "options w1 ''version'' = Some (VStr ''skip'')"
  shows "\<exists>ev. deploy c w = (Completed None, w1, ev)
           \<and> callbacks ''deploy'' ev = [None]
           \<and> invoked ev = map step_name (take 6 (deploy_tasks (cfg w)))
           \<and> set (invoked ev) \<inter> set (map step_name (drop 6 (deploy_tasks (cfg w)))) = {}"
proof -
  obtain ev0 where v: "validateEnvVariables c w = (None, w, ev0)"
    using ok validateEnvVariables_world [of c w] by (cases "validateEnvVariables c w") auto
  have i0: "invoked ev0 = []" and c0: "callbacks ''deploy'' ev0 = []"
    using validateEnvVariables_invoked [of c w] validateEnvVariables_callbacks [of "''deploy''" c w] v
    by simp_all
  let ?w = "set_option ''minify'' (VBool True) (set_option ''deploy'' (VBool True) w)"
  let ?tail = "[Step ''<anonymous>'' [LogError ''Deploy skipped!''], Callback ''deploy'' None]"
  have sk: "skip_check w1 = (Bypass None, w1, [LogError ''Deploy skipped!''])"
    using skip by (simp add: skip_check_def)
  have "steps (task3 c) c (deploy_tasks (cfg w)) =
          steps (task3 c) c (take 5 (deploy_tasks (cfg w))) @
          (''<anonymous>'', skip_check) # steps (task3 c) c (drop 6 (deploy_tasks (cfg w)))"
    by (subst deploy_tasks_split) (simp only: steps_append steps_SkipCheck)
  then have run: "series (steps (task3 c) c (deploy_tasks (cfg w))) ?w =
          (Bypass None, w1, ev1 @ [Step ''<anonymous>'' [LogError ''Deploy skipped!'']])"
    using pre sk by (simp add: series_append)
  have res: "deploy c w = (Completed None, w1, ev0 @ ev1 @ ?tail)"
    using v dep run by (simp add: deploy_def after_validation_def series_done_def)
  have i1: "invoked ev1 = map step_name (take 5 (deploy_tasks (cfg w)))"
    using series_invoked_all [OF pre] by simp
  have c1: "callbacks ''deploy'' ev1 = []"
    using series_no_callbacks [OF pre] .
  have inv: "invoked (ev0 @ ev1 @ ?tail) = map step_name (take 6 (deploy_tasks (cfg w)))"
    using i0 i1 by (simp add: invoked_append deploy_tasks_def Let_def)
  have cb: "callbacks ''deploy'' (ev0 @ ev1 @ ?tail) = [None]"
    using c0 c1 by (simp add: callbacks_append)
  have disj: "set (map step_name (take 6 (deploy_tasks (cfg w)))) \<inter>
              set (map step_name (drop 6 (deploy_tasks (cfg w)))) = {}"
    by (simp add: deploy_tasks_def Let_def)
  show ?thesis
    using res inv cb disj by simp
qed

theorem deploy_skip_completes_without_error_witness:
  "fst (validateEnvVariables scenario (initial_world wc_config Map.empty)) = None
   \<and> isDeployable scenario
   \<and> (\<exists>w1 ev1 ev.
         series (steps (task3 scenario) scenario
                   (take 5 (deploy_tasks (cfg (initial_world wc_config Map.empty)))))
           (set_option ''minify'' (VBool True)
              (set_option ''deploy'' (VBool True) (initial_world wc_config Map.empty))) =
           (Completed None, w1, ev1)
         \<and> options w1 ''version'' = Some (VStr ''skip'')
         \<and> deploy scenario (initial_world wc_config Map.empty) = (Completed None, w1, ev)
         \<and> callbacks ''deploy'' ev = [None]
         \<and> invoked ev = [''deploy:preflight'', ''bump'', ''fetch_latest_wp_wc_versions'',
                          ''bump:minreqs'', ''prompt:deploy'', ''<anonymous>''])"
proof -
  let ?c = scenario and ?w = "initial_world wc_config Map.empty"
  have ok: "fst (validateEnvVariables ?c ?w) = None"
    by (simp add: scenario_defs)
  have dep: "isDeployable ?c"
    by (simp add: scenario_def)
  obtain sg w1 ev1 where pre:
    "series (steps (task3 ?c) ?c (take 5 (deploy_tasks (cfg ?w))))
       (set_option ''minify'' (VBool True) (set_option ''deploy'' (VBool True) ?w)) = (sg, w1, ev1)"
    using prod_cases3 by blast
  have sg: "sg = Completed None" and skip: "options w1 ''version'' = Some (VStr ''skip'')"
    using pre by (auto simp add: scenario_defs)
  have names: "map step_name (take 6 (deploy_tasks (cfg ?w))) =
     [''deploy:preflight'', ''bump'', ''fetch_latest_wp_wc_versions'',
      ''bump:minreqs'', ''prompt:deploy'', ''<anonymous>'']"
    by (simp add: deploy_tasks_def Let_def)
  show ?thesis
    using ok dep pre sg skip names
      deploy_skip_completes_without_error [OF ok dep pre [unfolded sg] skip]
    by auto
qed

section \<open>Shell commands fail on a non-zero exit code\<close>

text \<open>
  C5. A command run through \<^verbatim>\<open>exec\<close> fails exactly when its exit code is a number
  other than zero; the error then holds both the command and the digits of the exit code.
  On exit code zero the step completes without an error. (When the process is ended by a
  signal there is no exit code, and the step completes without an error as well.)
\<close>

theorem exec_fails_iff_exit_code_nonzero:
  "((\<exists>e. fst (exec code command w) = Completed (Some e)) \<longleftrightarrow> (\<exists>n. code = Some n \<and> n \<noteq> 0))
   \<and> (\<forall>n. code = Some n \<and> n \<noteq> 0 \<longrightarrow>
          fst (exec code command w) =
            Completed (Some (''Command failed [exit code '' @ show_nat n @ '']: '' @ command))
          \<and> sublist command (''Command failed [exit code '' @ show_nat n @ '']: '' @ command)
          \<and> sublist (show_nat n) (''Command failed [exit code '' @ show_nat n @ '']: '' @ command))
   \<and> (code = Some 0 \<longrightarrow> fst (exec code command w) = Completed None)"
proof -
  have iff: "(\<exists>e. fst (exec code command w) = Completed (Some e)) \<longleftrightarrow>
             (\<exists>n. code = Some n \<and> n \<noteq> 0)"
    by (cases code) (auto simp add: exec_def)
  have cmd: "sublist command (''Command failed [exit code '' @ show_nat n @ '']: '' @ command)"
    for n
    by (metis sublist_appendI append_Nil2 append.assoc)
  have num: "sublist (show_nat n) (''Command failed [exit code '' @ show_nat n @ '']: '' @ command)"
    for n
    by (rule sublist_appendI)
  show ?thesis
    using iff cmd num by (auto simp add: exec_def)
qed

theorem exec_fails_iff_exit_code_nonzero_witness:
  "Some (2::nat) = Some 2 \<and> (2::nat) \<noteq> 0
   \<and> fst (exec (Some 2) ''git push'' ()) =
       Completed (Some ''Command failed [exit code 2]: git push'')
   \<and> sublist ''git push'' ''Command failed [exit code 2]: git push''
   \<and> sublist ''2'' ''Command failed [exit code 2]: git push''
   \<and> fst (exec (Some 0) ''git push'' ()) = Completed None"
  using exec_fails_iff_exit_code_nonzero [of "Some 2" "''git push''" "()"]
    exec_fails_iff_exit_code_nonzero [of "Some 0" "''git push''" "()"]
  by (simp add: digit_def show_nat.simps)

section \<open>The version lookups and a body that cannot be read\<close>

text \<open>
  C6. A lookup that ends in a request error is only logged: in the environment above the
  WooCommerce lookup fails with \<^verbatim>\<open>ETIMEDOUT\<close>, the task logs it, writes the WordPress
  version it fetched and completes without an error. A lookup that comes back without a
  request error and with a body on which \<^verbatim>\<open>JSON.parse\<close> raises is another matter:
  lines 321 and 334 are not guarded, the exception leaves the request callback, the task
  fails with it and never reaches its log line, and the deploy stops after its third
  step with that error.
\<close>

theorem unparsable_body_fails_the_task:
  "fetch_latest_wp_wc_versions scenario (initial_world wc_config Map.empty) =
     (Completed None,
      set_option ''tested_up_to_wp_version'' (VStr ''6.4'') (initial_world wc_config Map.empty),
      [LogInfo ''Fetching latest WP and WC versions'',
       LogError ''An error occurred when fetching latest WP / WC versions: ETIMEDOUT''])
   \<and> fetch_latest_wp_wc_versions (scenario\<lparr>wp_response := Malformed ''SyntaxError''\<rparr>)
       (initial_world wc_config Map.empty) =
     (Threw ''SyntaxError'', initial_world wc_config Map.empty,
      [LogInfo ''Fetching latest WP and WC versions''])
   \<and> fst (deploy (scenario\<lparr>wp_response := Malformed ''SyntaxError''\<rparr>)
            (initial_world wc_config Map.empty)) = Completed (Some ''SyntaxError'')
   \<and> invoked (snd (snd (deploy (scenario\<lparr>wp_response := Malformed ''SyntaxError''\<rparr>)
                          (initial_world wc_config Map.empty)))) =
       [''deploy:preflight'', ''bump'', ''fetch_latest_wp_wc_versions'']
   \<and> callbacks ''deploy''
         (snd (snd (deploy (scenario\<lparr>wp_response := Malformed ''SyntaxError''\<rparr>)
                      (initial_world wc_config Map.empty)))) = [Some ''SyntaxError'']"
  by (simp add: scenario_defs)

section \<open>The options object after the WordPress.org deploy\<close>

text \<open>
  C7. After \<^verbatim>\<open>deploy_to_wp_repo\<close> has run on options without \<^verbatim>\<open>deployTag\<close> and
  \<^verbatim>\<open>deployAssets\<close>, the variable \<^verbatim>\<open>options\<close> of the deploy module refers to a new
  object that holds the two defaults, and the shared options object that every other
  module reads holds neither of them. What the deploy module writes to \<^verbatim>\<open>options\<close>
  afterwards (\<^verbatim>\<open>options.owner\<close> of line 177) does not reach the shared object either.
\<close>

theorem deploy_to_wp_repo_leaves_shared_options:
  "options_var (fst (snd (deploy_to_wp_repo scenario (initial_world wp_config Map.empty))))
     \<noteq> shared_options
   \<and> options (fst (snd (deploy_to_wp_repo scenario (initial_world wp_config Map.empty))))
       ''deployTag'' = Some (VBool True)
   \<and> heap (fst (snd (deploy_to_wp_repo scenario (initial_world wp_config Map.empty))))
       shared_options ''deployTag'' = None
   \<and> heap (fst (snd (deploy_to_wp_repo scenario (initial_world wp_config Map.empty))))
       shared_options ''deployAssets'' = None
   \<and> heap (fst (snd (set_dev_repo
              (fst (snd (deploy_to_wp_repo scenario (initial_world wp_config Map.empty)))))))
       shared_options ''owner'' = None"
  by (simp add: scenario_defs)

section \<open>Task lists are fixed when the task is invoked\<close>

lemma external_task_no_bypass: "fst (external_task c n w) \<noteq> Bypass r"
  by (cases "external c n (heap w shared_options)")
     (auto simp add: external_task_def split: outcome.splits)

lemma series_external_no_bypass:
  "series (map (\<lambda>n. (n, external_task c n)) ns) w = (sg, w', ev) \<Longrightarrow> sg \<noteq> Bypass r"
proof (induction ns arbitrary: w ev)
  case Nil
  then show ?case by auto
next
  case (Cons n ns)
  then show ?case
    using external_task_no_bypass [of c n w r]
    by (auto split: prod.splits if_splits)
qed

lemma series_done_external_all:
  assumes "fst (series_done t (map (\<lambda>n. (n, external_task c n)) ns) w) = Completed None"
  shows "invoked (snd (snd (series_done t (map (\<lambda>n. (n, external_task c n)) ns) w))) = ns"
proof -
  obtain sg w' ev where s: "series (map (\<lambda>n. (n, external_task c n)) ns) w = (sg, w', ev)"
    using prod_cases3 by blast
  have nb: "sg \<noteq> Bypass None"
    using series_external_no_bypass [OF s] .
  have "sg = Completed None"
    using assms s nb by (cases sg) (auto simp add: series_done_def)
  then show ?thesis
    using s series_invoked_all [of "map (\<lambda>n. (n, external_task c n)) ns" w w' ev]
    by (simp add: series_done_def invoked_append comp_def)
qed

lemma copy_to_wp_steps:
  "steps (task0 c) c (copy_to_wp_repo_tasks opts) =
   map (\<lambda>n. (n, external_task c n)) (map step_name (copy_to_wp_repo_tasks opts))"
  by (simp add: steps_def copy_to_wp_repo_tasks_def task0_def Let_def)

lemma copy_to_wc_steps:
  "steps (task0 c) c (copy_to_wc_repo_tasks opts) =
   map (\<lambda>n. (n, external_task c n)) (map step_name (copy_to_wc_repo_tasks opts))"
  by (simp add: steps_def copy_to_wc_repo_tasks_def task0_def Let_def)

lemma scripts_steps:
  "steps (external_task c) c (scripts_tasks cf r) =
   map (\<lambda>n. (n, external_task c n)) (map step_name (scripts_tasks cf r))"
  by (simp add: steps_def scripts_tasks_def Let_def)

lemma copy_to_wp_repo_all:
  "fst (copy_to_wp_repo c w) = Completed None \<Longrightarrow>
   invoked (snd (snd (copy_to_wp_repo c w))) = map step_name (copy_to_wp_repo_tasks (options w))"
  using series_done_external_all
    [of "''copy_to_wp_repo''" c "map step_name (copy_to_wp_repo_tasks (options w))" w]
  by (simp add: copy_to_wp_repo_def copy_to_wp_steps)

lemma scripts_all:
  "fst (scripts c w) = Completed None \<Longrightarrow>
   invoked (snd (snd (scripts c w))) =
     map step_name (scripts_tasks (cfg w) (lastRun c ''lint:scripts''))"
  using series_done_external_all
    [of "''scripts''" c "map step_name (scripts_tasks (cfg w) (lastRun c ''lint:scripts''))" w]
  by (simp add: scripts_def scripts_steps)

lemma copy_to_wc_repo_all:
  assumes "fst (copy_to_wc_repo c w) = Completed None"
  shows "invoked (snd (snd (copy_to_wc_repo c w))) =
           map step_name (copy_to_wc_repo_tasks (options w))"
proof -
  obtain r ev0 where v: "validateEnvVariables c w = (r, w, ev0)"
    using validateEnvVariables_world [of c w] by (cases "validateEnvVariables c w") auto
  have i0: "invoked ev0 = []"
    using validateEnvVariables_invoked [of c w] v by simp
  have r: "r = None"
    using assms v by (cases r) (auto simp add: copy_to_wc_repo_def after_validation_def)
  let ?run = "series_done ''copy_to_wc_repo''
      (map (\<lambda>n. (n, external_task c n)) (map step_name (copy_to_wc_repo_tasks (options w)))) w"
  have res: "copy_to_wc_repo c w = (fst ?run, fst (snd ?run), ev0 @ snd (snd ?run))"
    using v r
    by (simp add: copy_to_wc_repo_def after_validation_def copy_to_wc_steps split: prod.splits)
  then have "fst ?run = Completed None"
    using assms by simp
  from series_done_external_all [OF this] show ?thesis
    using res i0 by (simp add: invoked_append)
qed

lemma copy_to_wc_repo_prefix:
  "prefix (invoked (snd (snd (copy_to_wc_repo c w))))
     (map step_name (copy_to_wc_repo_tasks (options w)))"
  using after_validation_invoked
      [of c "\<lambda>w. series_done ''copy_to_wc_repo''
                    (steps (task0 c) c (copy_to_wc_repo_tasks (options w))) w" w]
    series_done_invoked_prefix
      [of "''copy_to_wc_repo''" "steps (task0 c) c (copy_to_wc_repo_tasks (options w))" w]
  by (auto simp add: copy_to_wc_repo_def)

lemma copy_to_wp_repo_prefix:
  "prefix (invoked (snd (snd (copy_to_wp_repo c w))))
     (map step_name (copy_to_wp_repo_tasks (options w)))"
  using series_done_invoked_prefix
      [of "''copy_to_wp_repo''" "steps (task0 c) c (copy_to_wp_repo_tasks (options w))" w]
  by (simp add: copy_to_wp_repo_def)

lemma scripts_prefix:
  "prefix (invoked (snd (snd (scripts c w))))
     (map step_name (scripts_tasks (cfg w) (lastRun c ''lint:scripts'')))"
  using series_done_invoked_prefix
      [of "''scripts''"
          "steps (external_task c) c (scripts_tasks (cfg w) (lastRun c ''lint:scripts''))" w]
  by (simp add: scripts_def)

lemma deploy_prefix:
  "prefix (invoked (snd (snd (deploy c w)))) (map step_name (deploy_tasks (cfg w)))"
proof -
  let ?body = "\<lambda>w. if \<not> isDeployable c
            then (Threw (''Plugin is not deployable: '' @ [CHR 0x0A] @ '' * '' @
                         join_js (CHR 0x0A # '' * '') (getChangelogErrors c)), w, [])
            else let w1 = set_option ''minify'' (VBool True) (set_option ''deploy'' (VBool True) w)
                 in series_done ''deploy'' (steps (task3 c) c (deploy_tasks (cfg w1))) w1"
  have body: "prefix (invoked (snd (snd (?body w)))) (map step_name (deploy_tasks (cfg w)))"
    using series_done_invoked_prefix [of "''deploy''" "steps (task3 c) c (deploy_tasks (cfg w))"
        "set_option ''minify'' (VBool True) (set_option ''deploy'' (VBool True) w)"]
    by (simp add: Let_def)
  show ?thesis
    using after_validation_invoked [of c ?body w] body
    unfolding deploy_def by auto
qed

text \<open>
  C8. The list of \<^verbatim>\<open>copy_to_wc_repo\<close> and of \<^verbatim>\<open>copy_to_wp_repo\<close> holds
  \<^verbatim>\<open>build\<close> exactly when \<^verbatim>\<open>options.deploy\<close> is unset (not truthy) when the task is
  invoked; the list of \<^verbatim>\<open>deploy\<close> holds \<^verbatim>\<open>trello:update_wc_card\<close> exactly when
  \<^verbatim>\<open>config.trelloBoard\<close> is set (truthy) and the deploy type is \<^verbatim>\<open>wc\<close>; the list
  of \<^verbatim>\<open>scripts\<close> lacks \<^verbatim>\<open>lint:scripts\<close> exactly when it is not watching and
  \<^verbatim>\<open>gulp.lastRun\<close> reports a run of \<^verbatim>\<open>lint:scripts\<close>. The list is fixed from the
  options and config as they are when the task is invoked: whatever the steps do to the
  options or the config while they run, the steps invoked are an initial part of that
  list, and all of it when \<^verbatim>\<open>copy_to_wc_repo\<close>, \<^verbatim>\<open>copy_to_wp_repo\<close> or
  \<^verbatim>\<open>scripts\<close> completes without an error.
\<close>

theorem task_lists_fixed_at_invocation:
  "(Task ''build'' \<in> set (copy_to_wc_repo_tasks opts) \<longleftrightarrow> \<not> truthy (opts ''deploy''))
   \<and> (Task ''build'' \<in> set (copy_to_wp_repo_tasks opts) \<longleftrightarrow> \<not> truthy (opts ''deploy''))
   \<and> (Task ''trello:update_wc_card'' \<in> set (deploy_tasks cf) \<longleftrightarrow>
        truthy_str (trelloBoard cf) \<and> deploy_type cf = Some ''wc'')
   \<and> (Task ''lint:scripts'' \<notin> set (scripts_tasks cf r) \<longleftrightarrow> \<not> isWatching cf \<and> truthy_num r)
   \<and> prefix (invoked (snd (snd (copy_to_wc_repo c w))))
        (map step_name (copy_to_wc_repo_tasks (options w)))
   \<and> prefix (invoked (snd (snd (copy_to_wp_repo c w))))
        (map step_name (copy_to_wp_repo_tasks (options w)))
   \<and> prefix (invoked (snd (snd (deploy c w)))) (map step_name (deploy_tasks (cfg w)))
   \<and> prefix (invoked (snd (snd (scripts c w))))
        (map step_name (scripts_tasks (cfg w) (lastRun c ''lint:scripts'')))
   \<and> (fst (copy_to_wc_repo c w) = Completed None \<longrightarrow>
        invoked (snd (snd (copy_to_wc_repo c w))) =
          map step_name (copy_to_wc_repo_tasks (options w)))
   \<and> (fst (copy_to_wp_repo c w) = Completed None \<longrightarrow>
        invoked (snd (snd (copy_to_wp_repo c w))) =
          map step_name (copy_to_wp_repo_tasks (options w)))
   \<and> (fst (scripts c w) = Completed None \<longrightarrow>
        invoked (snd (snd (scripts c w))) =
          map step_name (scripts_tasks (cfg w) (lastRun c ''lint:scripts'')))"
proof -
  have 1: "Task ''build'' \<in> set (copy_to_wc_repo_tasks opts) \<longleftrightarrow> \<not> truthy (opts ''deploy'')"
    by (simp add: copy_to_wc_repo_tasks_def Let_def)
  have 2: "Task ''build'' \<in> set (copy_to_wp_repo_tasks opts) \<longleftrightarrow> \<not> truthy (opts ''deploy'')"
    by (simp add: copy_to_wp_repo_tasks_def Let_def)
  have 3: "Task ''trello:update_wc_card'' \<in> set (deploy_tasks cf) \<longleftrightarrow>
        truthy_str (trelloBoard cf) \<and> deploy_type cf = Some ''wc''"
    by (simp add: deploy_tasks_def Let_def)
  have 4: "Task ''lint:scripts'' \<notin> set (scripts_tasks cf r) \<longleftrightarrow> \<not> isWatching cf \<and> truthy_num r"
    by (simp add: scripts_tasks_def Let_def)
  show ?thesis
    using 1 2 3 4 copy_to_wc_repo_prefix [of c w] copy_to_wp_repo_prefix [of c w]
      deploy_prefix [of c w] scripts_prefix [of c w]
      copy_to_wc_repo_all [of c w] copy_to_wp_repo_all [of c w] scripts_all [of c w]
    by blast
qed

text \<open>In the environment above the build sets \<^verbatim>\<open>options.deploy\<close> while
  \<^verbatim>\<open>copy_to_wp_repo\<close> runs; the steps are still those listed at invocation.\<close>

theorem task_lists_fixed_at_invocation_witness:
  "fst (copy_to_wp_repo scenario (initial_world wp_config Map.empty)) = Completed None
   \<and> \<not> truthy (options (initial_world wp_config Map.empty) ''deploy'')
   \<and> truthy (options (fst (snd (copy_to_wp_repo scenario (initial_world wp_config Map.empty))))
               ''deploy'')
   \<and> invoked (snd (snd (copy_to_wp_repo scenario (initial_world wp_config Map.empty)))) =
       [''build'', ''shell:svn_checkout'', ''clean:wp_trunk'', ''copy:wp_trunk'']
   \<and> fst (copy_to_wc_repo scenario (initial_world wc_config Map.empty)) = Completed None
   \<and> invoked (snd (snd (copy_to_wc_repo scenario (initial_world wc_config Map.empty)))) =
       [''build'', ''shell:git_pull_wc_repo'', ''clean:wc_repo'', ''copy:wc_repo'']
   \<and> fst (scripts scenario (initial_world wc_config Map.empty)) = Completed None
   \<and> invoked (snd (snd (scripts scenario (initial_world wc_config Map.empty)))) =
       [''lint:scripts'', ''compile:scripts'']"
proof -
  let ?wp = "initial_world wp_config Map.empty" and ?wc = "initial_world wc_config Map.empty"
  have a: "fst (copy_to_wp_repo scenario ?wp) = Completed None"
    and b: "\<not> truthy (options ?wp ''deploy'')"
    and c: "truthy (options (fst (snd (copy_to_wp_repo scenario ?wp))) ''deploy'')"
    and d: "fst (copy_to_wc_repo scenario ?wc) = Completed None"
    by (simp_all add: scenario_defs)
  have e: "fst (scripts scenario ?wc) = Completed None"
    by (simp add: scenario_defs scripts_def scripts_tasks_def)
  have l1: "map step_name (copy_to_wp_repo_tasks (options ?wp)) =
      [''build'', ''shell:svn_checkout'', ''clean:wp_trunk'', ''copy:wp_trunk'']"
    and l2: "map step_name (copy_to_wc_repo_tasks (options ?wc)) =
      [''build'', ''shell:git_pull_wc_repo'', ''clean:wc_repo'', ''copy:wc_repo'']"
    by (simp_all add: scenario_defs)
  have l3: "map step_name (scripts_tasks (cfg ?wc) (lastRun scenario ''lint:scripts'')) =
      [''lint:scripts'', ''compile:scripts'']"
    by (simp add: scenario_defs scripts_tasks_def)
  show ?thesis
    using a b c d e
      task_lists_fixed_at_invocation [of "options ?wp" wp_config None scenario ?wp]
      task_lists_fixed_at_invocation [of "options ?wc" wc_config None scenario ?wc]
    unfolding l1 l2 l3
    by blast
qed

section \<open>Registering a name twice\<close>

lemma load_last_wins:
  "load regs reg n = (case map_of (rev regs) n of Some b \<Rightarrow> Some b | None \<Rightarrow> reg n)"
  by (induction regs arbitrary: reg)
     (auto simp add: load_def register_def map_add_def split: option.splits)

text \<open>
  C9. After the shell module is loaded, \<^verbatim>\<open>shell:update_framework_commit\<close> names the
  body registered at line 59, the later of its two registrations. In general a second
  registration under a name replaces the first and leaves the registry as if the first
  had never been made, and after any sequence of registrations a name refers to the body
  of the last registration under it. The registry is a function of the sequence of
  registrations, so every run gives the same one.
\<close>

theorem reregistration_overwrites:
  "load shell_registrations Map.empty ''shell:update_framework_commit'' = Some 59
   \<and> register n b2 (register n b1 reg) n = Some b2
   \<and> register n b2 (register n b1 reg) = register n b2 reg
   \<and> load regs Map.empty n = map_of (rev regs) n"
proof -
  have "load shell_registrations (Map.empty :: string \<rightharpoonup> nat) ''shell:update_framework_commit'' =
        Some 59"
    by (simp add: load_def shell_registrations_def register_def)
  moreover have "load regs Map.empty n = map_of (rev regs) n"
    by (simp add: load_last_wins split: option.splits)
  ultimately show ?thesis
    by (simp add: register_def)
qed

theorem reregistration_overwrites_witness:
  "register ''shell:git_stash'' (2::nat) (register ''shell:git_stash'' 1 Map.empty) ''shell:git_stash''
     = Some 2
   \<and> load [(''shell:git_stash'', 1::nat), (''shell:git_stash_apply'', 3), (''shell:git_stash'', 2)]
        Map.empty ''shell:git_stash'' = Some 2"
proof -
  let ?regs = "[(''shell:git_stash'', 1::nat), (''shell:git_stash_apply'', 3), (''shell:git_stash'', 2)]"
  have last: "map_of (rev ?regs) ''shell:git_stash'' = Some 2"
    by simp
  from reregistration_overwrites [of "''shell:git_stash''" "2::nat" 1 Map.empty ?regs]
  have "register ''shell:git_stash'' (2::nat) (register ''shell:git_stash'' 1 Map.empty)
          ''shell:git_stash'' = Some 2"
    and "load ?regs Map.empty ''shell:git_stash'' = map_of (rev ?regs) ''shell:git_stash''"
    by blast+
  then show ?thesis
    unfolding last by blast
qed

section \<open>Every call validates again\<close>

text \<open>
  C10. A call of \<^verbatim>\<open>validateEnvVariables\<close> leaves the flag
  \<^verbatim>\<open>validatedEnvVariables\<close> as it found it, so after a call that succeeded the next
  call checks the variables again: one run of \<^verbatim>\<open>deploy_to_wc_repo\<close> checks them
  twice, once itself and once in \<^verbatim>\<open>copy_to_wc_repo\<close>.
\<close>

theorem validation_repeated_on_every_call:
  "validatedEnvVariables (fst (snd (validateEnvVariables c w))) = validatedEnvVariables w
   \<and> validateEnvVariables scenario (initial_world wc_config Map.empty) =
       (None, initial_world wc_config Map.empty,
        [EnvCheck [''GITHUB_API_KEY'', ''GITHUB_USERNAME'']])
   \<and> snd (snd (deploy_to_wc_repo scenario (initial_world wc_config Map.empty))) =
       [EnvCheck [''GITHUB_API_KEY'', ''GITHUB_USERNAME''],
        Step ''copy_to_wc_repo''
          [EnvCheck [''GITHUB_API_KEY'', ''GITHUB_USERNAME''],
           Step ''build'' [], Step ''shell:git_pull_wc_repo'' [], Step ''clean:wc_repo'' [],
           Step ''copy:wc_repo'' [], Callback ''copy_to_wc_repo'' None],
        Step ''shell:git_push_wc_repo'' [],
        Callback ''deploy_to_wc_repo'' None]"
  by (simp add: scenario_defs)

end
